theory Spec2Isabelle
  imports Complex_Main "HOL-Library.Monad_Syntax" "HOL-Library.Log_Nat"
begin

section \<open>Lyric synchronisation engine of the karaoke player\<close>

text \<open>
  A shallow embedding of the timing code of \<^verbatim>\<open>src/components/KaraokeScreen.tsx\<close>
  (lyric parsing, the per-frame line resolver, the marquee duration) and of the
  format validator \<^verbatim>\<open>isLrcFormat\<close> of \<^verbatim>\<open>src/services/geminiService.ts\<close>.

  Modelling decisions:
  \<^item> a JavaScript string is the list of its UTF-16 code units, each a \<open>nat\<close> below 65536;
  \<^item> a finite JavaScript number is written as a \<open>real\<close>. The line resolver reads its
    operands as doubles and rounds their sum to double precision as the code does
    (\<open>dbl\<close>, \<open>plusDouble\<close>); the arithmetic of the parser and of the marquee
    duration is exact.
    The audio element's \<^verbatim>\<open>duration\<close> can also be NaN or infinite, so it has the type
    \<open>jsnum\<close>;
  \<^item> React state is a record that every effect and event handler takes and returns.
\<close>

subsection \<open>Strings\<close>

type_synonym jsstring = "nat list"

text \<open>Writes an ASCII literal as a list of code units.\<close>

definition js :: "string \<Rightarrow> jsstring" where
  "js s = map of_char s"

text \<open>
  \<^verbatim>\<open>String.prototype.trim\<close> removes WhiteSpace and LineTerminator code points from both
  ends: TAB, LF, VT, FF, CR, SP, NBSP, U+1680, U+2000..U+200A, U+2028, U+2029, U+202F,
  U+205F, U+3000 and U+FEFF.
\<close>

definition isWhiteSpace :: "nat \<Rightarrow> bool" where
  "isWhiteSpace c =
     (c \<in> set [9, 10, 11, 12, 13, 32, 160, 5760, 8232, 8233, 8239, 8287, 12288, 65279]
      \<or> (8192 \<le> c \<and> c \<le> 8202))"

definition trim :: "jsstring \<Rightarrow> jsstring" where
  "trim s = rev (dropWhile isWhiteSpace (rev (dropWhile isWhiteSpace s)))"

text \<open>
  \<^verbatim>\<open>s.split('\n')\<close>: the empty string gives one empty line. The result is never
  empty, so the last case below is never taken.
\<close>

fun split_nl :: "jsstring \<Rightarrow> jsstring list" where
  "split_nl [] = [[]]"
| "split_nl (c # cs) =
     (if c = 10 then [] # split_nl cs
      else (case split_nl cs of
              line # lines \<Rightarrow> (c # line) # lines
            | [] \<Rightarrow> [[c]]))"

text \<open>\<^verbatim>\<open>\d\<close> without the unicode flag: the ASCII digits.\<close>

definition isDigit :: "nat \<Rightarrow> bool" where
  "isDigit c = (48 \<le> c \<and> c \<le> 57)"

text \<open>\<^verbatim>\<open>parseInt(s, 10)\<close> on a string of ASCII digits.\<close>

definition parseInt :: "jsstring \<Rightarrow> nat" where
  "parseInt s = foldl (\<lambda>a c. 10 * a + (c - 48)) 0 s"

subsection \<open>The timestamp pattern\<close>

text \<open>
  \<^verbatim>\<open>/\[(\d{2}):(\d{2})[.:](\d{2,3})\]/\<close>, matched at the head of a string. The pieces
  follow the pattern from left to right; each returns what is left of the input.
\<close>

fun lit :: "(nat \<Rightarrow> bool) \<Rightarrow> jsstring \<Rightarrow> jsstring option" where
  "lit P [] = None"
| "lit P (c # s) = (if P c then Some s else None)"

fun digitsN :: "nat \<Rightarrow> jsstring \<Rightarrow> (jsstring \<times> jsstring) option" where
  "digitsN 0 s = Some ([], s)"
| "digitsN (Suc n) [] = None"
| "digitsN (Suc n) (c # s) =
     (if isDigit c then map_option (\<lambda>(ds, r). (c # ds, r)) (digitsN n s) else None)"

text \<open>
  The fraction \<^verbatim>\<open>(\d{2,3})\]\<close>: the quantifier is greedy, so three digits are tried
  first and two digits only when that fails.
\<close>

definition fractionAndClose :: "jsstring \<Rightarrow> (jsstring \<times> jsstring) option" where
  "fractionAndClose s =
     (case do { (ff, s1) \<leftarrow> digitsN (Suc (Suc (Suc 0))) s;
                s2 \<leftarrow> lit (\<lambda>c. c = 93) s1;
                Some (ff, s2) } of
        Some r \<Rightarrow> Some r
      | None \<Rightarrow> do { (ff, s1) \<leftarrow> digitsN (Suc (Suc 0)) s;
                      s2 \<leftarrow> lit (\<lambda>c. c = 93) s1;
                      Some (ff, s2) })"

text \<open>A match: the three capture groups, and the input after the match.\<close>

type_synonym tsmatch = "jsstring \<times> jsstring \<times> jsstring"

definition lrcTimestampRegex :: "jsstring \<Rightarrow> (tsmatch \<times> jsstring) option" where
  "lrcTimestampRegex s =
     do { s1 \<leftarrow> lit (\<lambda>c. c = 91) s;
          (mm, s2) \<leftarrow> digitsN (Suc (Suc 0)) s1;
          s3 \<leftarrow> lit (\<lambda>c. c = 58) s2;
          (ss, s4) \<leftarrow> digitsN (Suc (Suc 0)) s3;
          s5 \<leftarrow> lit (\<lambda>c. c = 46 \<or> c = 58) s4;
          (ff, s6) \<leftarrow> fractionAndClose s5;
          Some ((mm, ss, ff), s6) }"

lemma lit_length: "lit P s = Some r \<Longrightarrow> length s = Suc (length r)"
  by (cases s) (auto split: if_splits)

lemma digitsN_length: "digitsN n s = Some (ds, r) \<Longrightarrow> length s = n + length r \<and> length ds = n"
  by (induction n s arbitrary: ds r rule: digitsN.induct) (auto split: if_splits)

lemma digitsN_digits: "digitsN n s = Some (ds, r) \<Longrightarrow> list_all isDigit ds \<and> s = ds @ r"
  by (induction n s arbitrary: ds r rule: digitsN.induct) (auto split: if_splits)

lemma fractionAndClose_length:
  "fractionAndClose s = Some (ff, r) \<Longrightarrow> length r < length s"
  by (auto simp: fractionAndClose_def split: option.splits bind_splits
      dest!: lit_length digitsN_length)

lemma lrcTimestampRegex_length:
  "lrcTimestampRegex s = Some (m, r) \<Longrightarrow> length r < length s"
  by (auto simp: lrcTimestampRegex_def split: bind_splits
      dest!: lit_length digitsN_length fractionAndClose_length)

text \<open>
  \<^verbatim>\<open>[...line.matchAll(lrcTimestampRegex)]\<close>: the matches from left to right, the search
  resuming after each match and moving on by one code unit where nothing matches.
\<close>

function matchAll :: "jsstring \<Rightarrow> tsmatch list" where
  "matchAll [] = []"
| "matchAll (c # cs) =
     (case lrcTimestampRegex (c # cs) of
        Some (m, rest) \<Rightarrow> m # matchAll rest
      | None \<Rightarrow> matchAll cs)"
  by pat_completeness auto
termination
  by (relation "measure length") (auto dest: lrcTimestampRegex_length)

text \<open>\<^verbatim>\<open>line.replace(lrcTimestampRegex, '')\<close>: the same search, every match removed.\<close>

function replaceTimestamps :: "jsstring \<Rightarrow> jsstring" where
  "replaceTimestamps [] = []"
| "replaceTimestamps (c # cs) =
     (case lrcTimestampRegex (c # cs) of
        Some (m, rest) \<Rightarrow> replaceTimestamps rest
      | None \<Rightarrow> c # replaceTimestamps cs)"
  by pat_completeness auto
termination
  by (relation "measure length") (auto dest: lrcTimestampRegex_length)

subsection \<open>Numbers, lines, the audio element and the component state\<close>

text \<open>A JavaScript number: a finite value, one of the two infinities, or NaN.\<close>

datatype jsnum = Num real | PosInfinity | NegInfinity | NaN

text \<open>The global \<^verbatim>\<open>isFinite\<close>.\<close>

fun isFinite :: "jsnum \<Rightarrow> bool" where
  "isFinite (Num x) = True"
| "isFinite _ = False"

text \<open>\<^verbatim>\<open>d <= 0\<close>: false for NaN.\<close>

fun leZero :: "jsnum \<Rightarrow> bool" where
  "leZero (Num x) = (x \<le> 0)"
| "leZero NegInfinity = True"
| "leZero _ = False"

text \<open>Truthiness of a number: 0 and NaN are falsy.\<close>

fun truthy :: "jsnum \<Rightarrow> bool" where
  "truthy (Num x) = (x \<noteq> 0)"
| "truthy NaN = False"
| "truthy _ = True"

text \<open>\<^verbatim>\<open>d - x\<close> for a finite \<open>x\<close>: an infinity and NaN are left as they are.\<close>

fun minusNum :: "jsnum \<Rightarrow> real \<Rightarrow> jsnum" where
  "minusNum (Num d) x = Num (d - x)"
| "minusNum d x = d"

text \<open>The value of a finite number; it is only applied where \<open>isFinite\<close> holds.\<close>

fun theNum :: "jsnum \<Rightarrow> real" where
  "theNum (Num x) = x"
| "theNum _ = 0"

subsection \<open>Double precision\<close>

text \<open>
  IEEE 754 binary64 with the default rounding: a real is rounded to the nearest double, a
  tie to the double with the even significand. \<open>roundHalfEven\<close> rounds to an integer in
  that way.
\<close>

definition roundHalfEven :: "real \<Rightarrow> int" where
  "roundHalfEven y =
     (let f = \<lfloor>y\<rfloor> in
      if y - real_of_int f < 1 / 2 then f
      else if y - real_of_int f > 1 / 2 then f + 1
      else if even f then f else f + 1)"

text \<open>
  The exponent \<open>k\<close> of the leading bit of \<open>a > 0\<close>, that is \<open>2 ^ k \<le> a < 2 ^ (k + 1)\<close>,
  from the bit length of \<open>\<lfloor>a\<rfloor>\<close> when \<open>a \<ge> 1\<close> and of \<open>\<lceil>1 / a\<rceil> - 1\<close> otherwise.
\<close>

definition leadingExponent :: "real \<Rightarrow> int" where
  "leadingExponent a = (if 1 \<le> a then bitlen \<lfloor>a\<rfloor> - 1 else - bitlen (\<lceil>1 / a\<rceil> - 1))"

text \<open>
  The double nearest to \<open>x\<close>. A double has 53 significant bits, so its last bit has the
  weight \<open>2 ^ (k - 52)\<close>, and never less than \<open>2 ^ - 1074\<close> (subnormal numbers). A result
  of magnitude \<open>2 ^ 1024\<close> or more overflows to an infinity.
\<close>

definition roundToDouble :: "real \<Rightarrow> jsnum" where
  "roundToDouble x =
     (if x = 0 then Num 0
      else
        (let e = max (leadingExponent \<bar>x\<bar> - 52) (- 1074);
             m = roundHalfEven (x / 2 powi e);
             v = real_of_int m * 2 powi e
         in if 2 ^ 1024 \<le> \<bar>v\<bar> then (if 0 < x then PosInfinity else NegInfinity) else Num v))"

text \<open>\<^verbatim>\<open>x + y\<close> on two doubles: the exact sum, rounded.\<close>

definition plusDouble :: "real \<Rightarrow> real \<Rightarrow> jsnum" where
  "plusDouble x y = roundToDouble (x + y)"

text \<open>\<^verbatim>\<open>t >= s\<close> for a finite \<open>t\<close>; a comparison of doubles is exact.\<close>

fun geNum :: "real \<Rightarrow> jsnum \<Rightarrow> bool" where
  "geNum t (Num s) = (s \<le> t)"
| "geNum t NegInfinity = True"
| "geNum t _ = False"

text \<open>
  The double that a number written as a real stands for (a number within the range of the
  doubles): the double that the program has for a decimal literal, so that \<^verbatim>\<open>-0.3\<close>
  is \<open>dbl (- 0.3)\<close>. A real \<open>x\<close> with \<open>dbl x = x\<close> is a double.
\<close>

definition dbl :: "real \<Rightarrow> real" where
  "dbl x = theNum (roundToDouble x)"

text \<open>
  The interface \<^verbatim>\<open>TimedLine\<close>. Its field \<^verbatim>\<open>text\<close> is called \<open>lineText\<close> here,
  \<open>text\<close> being a keyword of Isabelle.
\<close>

record TimedLine =
  lineText :: jsstring
  startTime :: real

text \<open>
  What the code reads and writes of the \<^verbatim>\<open>HTMLAudioElement\<close>. The clock position is
  always a finite number.
\<close>

record Audio =
  readyState :: nat
  duration :: jsnum
  currentTime :: real
  audioPlaybackRate :: real

text \<open>
  The state of the component: the \<^verbatim>\<open>useState\<close> cells the timing code reads or writes,
  and the pending \<^verbatim>\<open>loadedmetadata\<close> listener (the lines its closure has captured).
\<close>

record KaraokeState =
  timedLyrics :: "TimedLine list"
  currentLineIndex :: int
  timingOffset :: real
  playbackRate :: real
  metadataListener :: "jsstring list option"

definition initialState :: KaraokeState where
  "initialState =
     \<lparr>timedLyrics = [], currentLineIndex = - 1, timingOffset = - 0.3, playbackRate = 1,
      metadataListener = None\<rparr>"

subsection \<open>Parsing the lyrics\<close>

text \<open>
  \<^verbatim>\<open>minutes * 60 + seconds + (match[3].length === 2 ? fraction / 100 : fraction / 1000)\<close>
\<close>

definition timestampSeconds :: "tsmatch \<Rightarrow> real" where
  "timestampSeconds m =
     (case m of (mm, ss, ff) \<Rightarrow>
        real (parseInt mm) * 60 + real (parseInt ss)
        + (if length ff = 2 then real (parseInt ff) / 100 else real (parseInt ff) / 1000))"

text \<open>The body of the loop over the lines: what one line pushes onto \<^verbatim>\<open>parsedLrcLines\<close>.\<close>

definition lineEntries :: "jsstring \<Rightarrow> TimedLine list" where
  "lineEntries line =
     (let timestamps = matchAll line in
      if length timestamps > 0 then
        (let text = trim (replaceTimestamps line) in
         map (\<lambda>m. \<lparr>lineText = text, startTime = timestampSeconds m\<rparr>) timestamps)
      else [])"

definition parsedLrcLines :: "jsstring list \<Rightarrow> TimedLine list" where
  "parsedLrcLines lines = concat (map lineEntries lines)"

definition isLrc :: "jsstring list \<Rightarrow> bool" where
  "isLrc lines = list_ex (\<lambda>line. length (matchAll line) > 0) lines"

text \<open>\<^verbatim>\<open>lyrics.split('\n').filter(line => line.trim() !== '')\<close>\<close>

definition nonEmptyLines :: "jsstring \<Rightarrow> jsstring list" where
  "nonEmptyLines lyrics = filter (\<lambda>line. trim line \<noteq> []) (split_nl lyrics)"

text \<open>\<^verbatim>\<open>lines.map(text => ({ text, startTime: 0 }))\<close>\<close>

definition placeholderTimings :: "jsstring list \<Rightarrow> TimedLine list" where
  "placeholderTimings lines = map (\<lambda>text. \<lparr>lineText = text, startTime = 0\<rparr>) lines"

text \<open>
  The closure \<^verbatim>\<open>calculateTimings\<close>; it reads the duration of the audio element when it
  runs. The division happens only when the duration is a finite positive number.
\<close>

definition calculateTimings :: "jsstring list \<Rightarrow> Audio \<Rightarrow> TimedLine list" where
  "calculateTimings lines audio =
     (if \<not> isFinite (duration audio) \<or> leZero (duration audio) then placeholderTimings lines
      else
        (let timePerLine = theNum (duration audio) / real (length lines) in
         map (\<lambda>(index, text). \<lparr>lineText = text, startTime = real index * timePerLine\<rparr>)
           (enumerate 0 lines)))"

text \<open>
  The effect that parses the lyrics (dependencies \<^verbatim>\<open>[lyrics, audioUrl]\<close>). React runs
  the clean-up of the previous run first, which removes a listener that is still pending.
  \<^verbatim>\<open>audioRef.current\<close> may be null, hence the option.
\<close>

definition parseLyricsEffect :: "jsstring \<Rightarrow> Audio option \<Rightarrow> KaraokeState \<Rightarrow> KaraokeState" where
  "parseLyricsEffect lyrics audioRef st0 =
     (let st = st0\<lparr>metadataListener := None\<rparr> in
      case audioRef of
        None \<Rightarrow> st
      | Some audio \<Rightarrow>
          if lyrics = [] then st
          else
            (let lines = nonEmptyLines lyrics in
             if length lines = 0 then st\<lparr>timedLyrics := []\<rparr>
             else if isLrc lines \<and> length (parsedLrcLines lines) > 0
               then st\<lparr>timedLyrics := sort_key startTime (parsedLrcLines lines)\<rparr>
             else if readyState audio \<ge> 1
               then st\<lparr>timedLyrics := calculateTimings lines audio\<rparr>
             else st\<lparr>timedLyrics := placeholderTimings lines,
                     metadataListener := Some lines\<rparr>))"

text \<open>
  The \<^verbatim>\<open>loadedmetadata\<close> event: a pending listener runs \<^verbatim>\<open>calculateTimings\<close> and,
  registered with \<^verbatim>\<open>{ once: true }\<close>, is removed.
\<close>

definition loadedmetadata :: "Audio \<Rightarrow> KaraokeState \<Rightarrow> KaraokeState" where
  "loadedmetadata audio st =
     (case metadataListener st of
        None \<Rightarrow> st
      | Some lines \<Rightarrow>
          st\<lparr>timedLyrics := calculateTimings lines audio, metadataListener := None\<rparr>)"

subsection \<open>The line resolver\<close>

text \<open>
  The loop of \<^verbatim>\<open>animate\<close>:
  \<^verbatim>\<open>for (let i = timedLyrics.length - 1; i >= 0; i--)
      if (currentTime >= timedLyrics[i].startTime + timingOffset) { newIndex = i; break; }\<close>
  The counter \<open>n\<close> is \<open>i + 1\<close>; the result is \<open>- 1\<close> when the loop ends without a
  \<^verbatim>\<open>break\<close>. \<open>lineStarted\<close> is the test of the loop,
  \<^verbatim>\<open>currentTime >= timedLyrics[i].startTime + timingOffset\<close>, on doubles: each of
  the three operands is read through \<open>dbl\<close>, which changes no operand that is a double,
  and the sum is rounded to a double before it is compared with the clock.
\<close>

definition lineStarted :: "real \<Rightarrow> real \<Rightarrow> real \<Rightarrow> bool" where
  "lineStarted start off t = geNum (dbl t) (plusDouble (dbl start) (dbl off))"

fun scanBack :: "TimedLine list \<Rightarrow> real \<Rightarrow> real \<Rightarrow> nat \<Rightarrow> int" where
  "scanBack ls off t 0 = - 1"
| "scanBack ls off t (Suc i) =
     (if lineStarted (startTime (ls ! i)) off t then int i else scanBack ls off t i)"

definition newIndex :: "KaraokeState \<Rightarrow> real \<Rightarrow> int" where
  "newIndex st t = scanBack (timedLyrics st) (timingOffset st) t (length (timedLyrics st))"

text \<open>One frame: read the clock, resolve, store the index.\<close>

definition animate :: "Audio \<Rightarrow> KaraokeState \<Rightarrow> KaraokeState" where
  "animate audio st = st\<lparr>currentLineIndex := newIndex st (currentTime audio)\<rparr>"

subsection \<open>The marquee duration\<close>

text \<open>
  \<^verbatim>\<open>getMarqueeDuration\<close> reads the current index, the sequence and the audio element.
  \<^verbatim>\<open>timedLyrics[i]\<close> is \<^verbatim>\<open>undefined\<close> outside the array: a missing next line
  takes the second branch, a missing current line makes \<^verbatim>\<open>currentLine.startTime\<close>
  throw a TypeError. The test \<^verbatim>\<open>audioRef.current && audioRef.current.duration\<close> is a
  truthiness test, so a duration of 0 or NaN counts as not available.
\<close>

datatype error = TypeError

definition getMarqueeDuration :: "Audio option \<Rightarrow> KaraokeState \<Rightarrow> error + jsnum" where
  "getMarqueeDuration audioRef st =
     (if currentLineIndex st < 0 \<or> length (timedLyrics st) = 0 then Inr (Num 0)
      else
        (let i = nat (currentLineIndex st); ls = timedLyrics st in
         if i + 1 < length ls
           then Inr (Num (startTime (ls ! (i + 1)) - startTime (ls ! i)))
         else
           (case audioRef of
              None \<Rightarrow> Inr (Num 5)
            | Some audio \<Rightarrow>
                if truthy (duration audio) then
                  (if i < length ls then Inr (minusNum (duration audio) (startTime (ls ! i)))
                   else Inl TypeError)
                else Inr (Num 5))))"

subsection \<open>The playback rate\<close>

text \<open>The effect \<^verbatim>\<open>audioRef.current.playbackRate = playbackRate\<close>.\<close>

definition playbackRateEffect :: "KaraokeState \<Rightarrow> Audio \<Rightarrow> Audio" where
  "playbackRateEffect st audio = audio\<lparr>audioPlaybackRate := playbackRate st\<rparr>"

subsection \<open>The format validator\<close>

text \<open>
  \<^verbatim>\<open>/^\[\d{2}:\d{2}[.:]\d{2,3}\]/.test(s)\<close>: the timestamp pattern, anchored at the
  start of the string.
\<close>

definition lrcLineRegex_test :: "jsstring \<Rightarrow> bool" where
  "lrcLineRegex_test s = (lrcTimestampRegex s \<noteq> None)"

text \<open>
  \<^verbatim>\<open>isLrcFormat\<close>: the text is trimmed and split at line feeds; no line is filtered
  out before the lines are counted.
\<close>

definition isLrcFormat :: "jsstring \<Rightarrow> bool" where
  "isLrcFormat text =
     (if text = [] then False
      else
        (let lines = split_nl (trim text);
             lrcLinesCount = length (filter (\<lambda>line. lrcLineRegex_test (trim line)) lines)
         in length lines > 0 \<and> real lrcLinesCount / real (length lines) > 0.5))"

subsection \<open>Timestamps as the specification writes them\<close>





subsection \<open>Statements of the specification, as it words them\<close>

text \<open>
  The marquee duration as the specification describes it, with "the audio duration is
  known" read as "the duration is not NaN".
\<close>

definition specMarqueeDuration :: "jsnum \<Rightarrow> int \<Rightarrow> TimedLine list \<Rightarrow> jsnum" where
  "specMarqueeDuration audioDuration activeIndex ls =
     (if activeIndex < 0 \<or> ls = [] then Num 0
      else if nat activeIndex + 1 < length ls
        then Num (startTime (ls ! (nat activeIndex + 1)) - startTime (ls ! nat activeIndex))
      else if audioDuration \<noteq> NaN
        then minusNum audioDuration (startTime (ls ! nat activeIndex))
      else Num 5)"

text \<open>A number below zero.\<close>

fun isNegative :: "jsnum \<Rightarrow> bool" where
  "isNegative (Num x) = (x < 0)"
| "isNegative NegInfinity = True"
| "isNegative _ = False"

text \<open>
  The validation policy as the specification describes it: more than half of the
  non-empty lines match the pattern.
\<close>

definition acceptedByNonEmptyLines :: "jsstring \<Rightarrow> bool" where
  "acceptedByNonEmptyLines text =
     (text \<noteq> [] \<and>
      (let nonEmpty = filter (\<lambda>line. trim line \<noteq> []) (split_nl text) in
       length nonEmpty < 2 * length (filter (\<lambda>line. lrcLineRegex_test (trim line)) nonEmpty)))"

subsection \<open>Example inputs\<close>

definition exampleLines :: "real list \<Rightarrow> TimedLine list" where
  "exampleLines ts = map (\<lambda>t. \<lparr>lineText = js ''x'', startTime = t\<rparr>) ts"

definition readyAudio :: "jsnum \<Rightarrow> Audio" where
  "readyAudio d = \<lparr>readyState = 4, duration = d, currentTime = 0, audioPlaybackRate = 1\<rparr>"

definition waitingAudio :: Audio where
  "waitingAudio = \<lparr>readyState = 0, duration = NaN, currentTime = 0, audioPlaybackRate = 1\<rparr>"

definition lateAudio :: Audio where
  "lateAudio = \<lparr>readyState = 4, duration = Num 10, currentTime = 9.95, audioPlaybackRate = 1\<rparr>"

definition marqueeExample :: "int \<Rightarrow> KaraokeState" where
  "marqueeExample i = initialState\<lparr>timedLyrics := exampleLines [0, 5, 8], currentLineIndex := i\<rparr>"

definition exampleLrc :: jsstring where
  "exampleLrc = js ''[00:15.32] A'' @ [10] @ js ''[00:17.81] B''"

definition exampleUnsorted :: jsstring where
  "exampleUnsorted = js ''[00:17.81] B'' @ [10] @ js ''[00:15.32] A''"


definition exampleLate :: jsstring where
  "exampleLate = js ''[00:10.20] X''"

definition exampleBlankLines :: jsstring where
  "exampleBlankLines = js ''[00:01.00]a'' @ [10, 10, 10] @ js ''[00:02.00]b''"

definition exampleMalformed :: jsstring where
  "exampleMalformed = js ''[1:2.3]text'' @ [10] @ js ''more''"

definition exampleMixed :: jsstring where
  "exampleMixed = js ''[00:15.32] A'' @ [10] @ js ''plain words''"

section \<open>Auxiliary facts\<close>

subsection \<open>Rounding to a double\<close>

text \<open>
  The integer rounding is within one half, and a tie goes to the even integer. The exponent
  is the one of the leading bit. A finite result of \<open>roundToDouble\<close> is a multiple
  \<open>m * 2 ^ e\<close> of the spacing \<open>2 ^ e\<close> of the doubles around \<open>x\<close>, with at most 53 bits in
  \<open>m\<close>, and no further from \<open>x\<close> than half that spacing.
\<close>

lemma roundHalfEven_error: "\<bar>real_of_int (roundHalfEven y) - y\<bar> \<le> 1 / 2"
  unfolding roundHalfEven_def Let_def by (auto simp: abs_le_iff)

lemma bitlen_real_bounds:
  assumes "0 < n"
  shows "1 \<le> bitlen n" and "(2::real) ^ nat (bitlen n - 1) \<le> real_of_int n"
    and "real_of_int n + 1 \<le> 2 ^ nat (bitlen n)"
proof -
  have b: "2 ^ nat (bitlen n - 1) \<le> n" "n + 1 \<le> 2 ^ nat (bitlen n)"
    using bitlen_bounds [OF assms] by auto
  show "1 \<le> bitlen n"
    using assms by (simp add: bitlen_alt_def)
  show "(2::real) ^ nat (bitlen n - 1) \<le> real_of_int n"
    using b(1) by simp
  have "real_of_int (n + 1) \<le> real_of_int (2 ^ nat (bitlen n))"
    using b(2) by (simp only: of_int_le_iff)
  then show "real_of_int n + 1 \<le> 2 ^ nat (bitlen n)"
    by simp
qed

lemma leadingExponent_bounds:
  assumes "0 < a"
  shows "2 powi leadingExponent a \<le> a \<and> a < 2 powi (leadingExponent a + 1)"
proof (cases "1 \<le> a")
  case True
  define n where "n = \<lfloor>a\<rfloor>"
  have n: "0 < n" "real_of_int n \<le> a" "a < real_of_int n + 1"
    using True by (auto simp: n_def)
  note b = bitlen_real_bounds [OF n(1)]
  have k: "leadingExponent a = bitlen n - 1"
    using True by (simp add: leadingExponent_def n_def)
  have p: "2 powi (bitlen n - 1) = (2::real) ^ nat (bitlen n - 1)"
    "2 powi (bitlen n - 1 + 1) = (2::real) ^ nat (bitlen n)"
    using b(1) by (simp_all add: power_int_def)
  show ?thesis
    unfolding k p using b(2,3) n(2,3) by linarith
next
  case False
  define m where "m = \<lceil>1 / a\<rceil> - 1"
  have a1: "1 < 1 / a" using assms False by simp
  have m: "0 < m" "real_of_int m < 1 / a" "1 / a \<le> real_of_int m + 1"
    using a1 by (auto simp: m_def) linarith+
  note b = bitlen_real_bounds [OF m(1)]
  have k: "leadingExponent a = - bitlen m"
    using False by (simp add: leadingExponent_def m_def)
  have p: "2 powi (- bitlen m) = 1 / (2::real) ^ nat (bitlen m)"
    "2 powi (- bitlen m + 1) = 1 / (2::real) ^ nat (bitlen m - 1)"
    using b(1) by (simp_all add: power_int_def field_simps nat_diff_distrib)
  have 1: "1 / a \<le> 2 ^ nat (bitlen m)" using m(3) b(3) by linarith
  have 2: "2 ^ nat (bitlen m - 1) < 1 / a" using m(2) b(2) by linarith
  have "1 / (2::real) ^ nat (bitlen m) \<le> a"
    using 1 assms by (simp add: field_simps)
  moreover have "a < 1 / (2::real) ^ nat (bitlen m - 1)"
    using 2 assms by (simp add: field_simps)
  ultimately show ?thesis
    unfolding k p by simp
qed

lemma roundHalfEven_tie: "y - real_of_int \<lfloor>y\<rfloor> = 1 / 2 \<Longrightarrow> even (roundHalfEven y)"
  by (simp add: roundHalfEven_def Let_def)

lemma abs_scale:
  fixes a x p :: real
  assumes "0 < p"
  shows "\<bar>a - x / p\<bar> * p = \<bar>a * p - x\<bar>"
proof -
  have "(a - x / p) * p = a * p - x"
    using assms by (simp add: field_simps)
  then have "\<bar>a * p - x\<bar> = \<bar>a - x / p\<bar> * \<bar>p\<bar>"
    by (metis abs_mult)
  with assms show ?thesis by simp
qed

lemma roundToDouble_finite:
  fixes x v :: real
  defines "e \<equiv> max (leadingExponent \<bar>x\<bar> - 52) (- 1074)"
  defines "m \<equiv> roundHalfEven (x / 2 powi e)"
  assumes "x \<noteq> 0" and "roundToDouble x = Num v"
  shows "v = real_of_int m * 2 powi e \<and> \<bar>m\<bar> \<le> 2 ^ 53 \<and> \<bar>v\<bar> < 2 ^ 1024
         \<and> \<bar>v - x\<bar> \<le> 2 powi e / 2"
proof -
  have pos: "(0::real) < 2 powi e" by simp
  have v: "v = real_of_int m * 2 powi e" and fin: "\<bar>v\<bar> < 2 ^ 1024"
    using assms(3,4) by (auto simp: roundToDouble_def Let_def e_def m_def split: if_splits)
  have "\<bar>real_of_int m - x / 2 powi e\<bar> \<le> 1 / 2"
    unfolding m_def by (rule roundHalfEven_error)
  then have "\<bar>real_of_int m - x / 2 powi e\<bar> * 2 powi e \<le> 1 / 2 * 2 powi e"
    using pos by (intro mult_right_mono) simp_all
  also have "\<bar>real_of_int m - x / 2 powi e\<bar> * 2 powi e = \<bar>real_of_int m * 2 powi e - x\<bar>"
    by (rule abs_scale [OF pos])
  finally have err: "\<bar>v - x\<bar> \<le> 2 powi e / 2"
    by (simp add: v)
  have ax: "0 < \<bar>x\<bar>" using assms(3) by simp
  have "\<bar>x\<bar> < 2 powi (leadingExponent \<bar>x\<bar> + 1)"
    using leadingExponent_bounds [OF ax] by simp
  also have "\<dots> \<le> 2 powi (e + 53)"
    by (intro power_int_increasing) (simp_all add: e_def)
  also have "\<dots> = 2 powi e * 2 ^ 53"
    by (simp add: power_int_add)
  finally have "\<bar>x\<bar> / 2 powi e < 2 ^ 53"
    using pos by (simp add: field_simps)
  then have y: "\<bar>x / 2 powi e\<bar> < 2 ^ 53"
    by simp
  have "\<bar>real_of_int m\<bar> \<le> \<bar>x / 2 powi e\<bar> + 1 / 2"
    using roundHalfEven_error [of "x / 2 powi e"] unfolding m_def by linarith
  with y have "\<bar>real_of_int m\<bar> < 2 ^ 53 + 1 / 2" by linarith
  then have "\<bar>real_of_int m\<bar> < real_of_int (2 ^ 53 + 1)" by simp
  then have "\<bar>m\<bar> < 2 ^ 53 + 1"
    by (metis of_int_abs of_int_less_iff)
  then have "\<bar>m\<bar> \<le> 2 ^ 53" by simp
  with v fin err show ?thesis by simp
qed

subsection \<open>The backward scan\<close>

lemma scanBack_none:
  "scanBack ls off t n = - 1 \<Longrightarrow> i < n \<Longrightarrow> \<not> lineStarted (startTime (ls ! i)) off t"
  by (induction n) (auto split: if_splits simp: less_Suc_eq)

lemma scanBack_some:
  "scanBack ls off t n \<noteq> - 1 \<Longrightarrow>
     0 \<le> scanBack ls off t n \<and> nat (scanBack ls off t n) < n
     \<and> lineStarted (startTime (ls ! nat (scanBack ls off t n))) off t
     \<and> (\<forall>j < n. lineStarted (startTime (ls ! j)) off t \<longrightarrow> j \<le> nat (scanBack ls off t n))"
  by (induction n) (auto split: if_splits simp: less_Suc_eq)

subsection \<open>Lines and timings\<close>

lemma split_nl_nonempty: "split_nl s \<noteq> []"
  by (induction s) (auto split: list.splits)

lemma nonEmptyLines_Nil: "nonEmptyLines [] = []"
  by (simp add: nonEmptyLines_def trim_def)

lemma isLrc_parsed: "isLrc lines \<longleftrightarrow> parsedLrcLines lines \<noteq> []"
  by (induction lines) (auto simp: isLrc_def parsedLrcLines_def lineEntries_def Let_def)

lemma isLrc_iff: "isLrc lines \<longleftrightarrow> (\<exists>line \<in> set lines. matchAll line \<noteq> [])"
  by (simp add: isLrc_def list_ex_iff)

lemma sorted_placeholderTimings: "sorted (map startTime (placeholderTimings lines))"
  by (induction lines) (auto simp: placeholderTimings_def)

lemma evenDivision_nth:
  "map (\<lambda>(index, text). \<lparr>lineText = text, startTime = real index * c\<rparr>) (enumerate 0 lines)
   = map (\<lambda>i. \<lparr>lineText = lines ! i, startTime = real i * c\<rparr>) [0..<length lines]"
  by (rule nth_equalityI) (simp_all add: nth_enumerate_eq)

lemma sorted_evenDivision:
  assumes "0 \<le> c"
  shows "sorted (map startTime
     (map (\<lambda>(index, text). \<lparr>lineText = text, startTime = real index * c\<rparr>) (enumerate 0 lines)))"
  unfolding evenDivision_nth using assms
  by (simp add: sorted_iff_nth_mono mult_right_mono o_def)

lemma calculateTimings_even:
  "duration audio = Num d \<Longrightarrow> 0 < d \<Longrightarrow>
   calculateTimings lines audio =
     map (\<lambda>(index, text). \<lparr>lineText = text, startTime = real index * (d / real (length lines))\<rparr>)
       (enumerate 0 lines)"
  by (simp add: calculateTimings_def Let_def)

lemma calculateTimings_placeholder:
  "\<not> isFinite (duration audio) \<or> leZero (duration audio) \<Longrightarrow>
   calculateTimings lines audio = placeholderTimings lines"
  by (simp add: calculateTimings_def)

lemma sorted_calculateTimings: "sorted (map startTime (calculateTimings lines audio))"
proof (cases "\<not> isFinite (duration audio) \<or> leZero (duration audio)")
  case True
  then show ?thesis
    by (simp only: calculateTimings_placeholder sorted_placeholderTimings)
next
  case False
  then obtain d where d: "duration audio = Num d" "0 < d"
    by (cases "duration audio") auto
  then have "0 \<le> d / real (length lines)" by simp
  then show ?thesis
    by (simp only: calculateTimings_even [OF d] sorted_evenDivision)
qed

lemma sorted_parseLyricsEffect:
  "sorted (map startTime (timedLyrics st)) \<or> (lyrics \<noteq> [] \<and> audioRef \<noteq> None) \<Longrightarrow>
   sorted (map startTime (timedLyrics (parseLyricsEffect lyrics audioRef st)))"
  by (auto simp: parseLyricsEffect_def Let_def sorted_calculateTimings sorted_placeholderTimings
      split: option.splits)

lemma sorted_loadedmetadata:
  "sorted (map startTime (timedLyrics st)) \<Longrightarrow>
   sorted (map startTime (timedLyrics (loadedmetadata audio st)))"
  by (auto simp: loadedmetadata_def sorted_calculateTimings split: option.splits)

lemma sorted_startTime_next:
  "sorted (map startTime ls) \<Longrightarrow> Suc i < length ls \<Longrightarrow> startTime (ls ! i) \<le> startTime (ls ! Suc i)"
  using sorted_nth_mono [of "map startTime ls" i "Suc i"] by simp

lemma parse_timestamped:
  "isLrc (nonEmptyLines lyrics) \<Longrightarrow>
   parseLyricsEffect lyrics (Some audio) st =
     st\<lparr>metadataListener := None,
        timedLyrics := sort_key startTime (parsedLrcLines (nonEmptyLines lyrics))\<rparr>"
  by (cases "lyrics = []")
    (auto simp: parseLyricsEffect_def Let_def nonEmptyLines_Nil isLrc_parsed parsedLrcLines_def)

lemma parse_plain_ready:
  "lyrics \<noteq> [] \<Longrightarrow> \<not> isLrc (nonEmptyLines lyrics) \<Longrightarrow> 1 \<le> readyState audio \<Longrightarrow>
   timedLyrics (parseLyricsEffect lyrics (Some audio) st) = calculateTimings (nonEmptyLines lyrics) audio
   \<and> metadataListener (parseLyricsEffect lyrics (Some audio) st) = None"
  by (cases "duration audio") (auto simp: parseLyricsEffect_def Let_def calculateTimings_def placeholderTimings_def)

lemma parse_plain_waiting:
  "lyrics \<noteq> [] \<Longrightarrow> \<not> isLrc (nonEmptyLines lyrics) \<Longrightarrow> readyState audio < 1 \<Longrightarrow>
   timedLyrics (parseLyricsEffect lyrics (Some audio) st) = placeholderTimings (nonEmptyLines lyrics)
   \<and> metadataListener (parseLyricsEffect lyrics (Some audio) st)
       = (if nonEmptyLines lyrics = [] then None else Some (nonEmptyLines lyrics))"
  by (auto simp: parseLyricsEffect_def Let_def placeholderTimings_def)

lemma parse_plain:
  assumes "lyrics \<noteq> []" and "\<not> isLrc (nonEmptyLines lyrics)"
  shows "timedLyrics (parseLyricsEffect lyrics (Some audio) st)
         = (if 1 \<le> readyState audio then calculateTimings (nonEmptyLines lyrics) audio
            else placeholderTimings (nonEmptyLines lyrics))"
  using parse_plain_ready [OF assms, of audio st] parse_plain_waiting [OF assms, of audio st]
  by (cases "1 \<le> readyState audio") auto

lemma lineText_calculateTimings: "map lineText (calculateTimings lines audio) = lines"
  by (simp add: calculateTimings_def placeholderTimings_def Let_def o_def case_prod_unfold)

lemma lineText_placeholderTimings: "map lineText (placeholderTimings lines) = lines"
  by (simp add: placeholderTimings_def o_def)

lemma parse_plain_even:
  assumes "lyrics \<noteq> []" and "\<not> isLrc (nonEmptyLines lyrics)"
    and "1 \<le> readyState audio" and "duration audio = Num D" and "0 < D"
  shows "timedLyrics (parseLyricsEffect lyrics (Some audio) st)
         = map (\<lambda>i. \<lparr>lineText = nonEmptyLines lyrics ! i,
                      startTime = real i * (D / real (length (nonEmptyLines lyrics)))\<rparr>)
             [0..<length (nonEmptyLines lyrics)]"
  using parse_plain_ready [OF assms(1-3), of st]
  by (simp only: calculateTimings_even [OF assms(4,5)] evenDivision_nth)

lemma parse_plain_zeros:
  assumes "lyrics \<noteq> []" and "\<not> isLrc (nonEmptyLines lyrics)"
    and "readyState audio < 1 \<or> \<not> isFinite (duration audio) \<or> leZero (duration audio)"
  shows "timedLyrics (parseLyricsEffect lyrics (Some audio) st)
         = map (\<lambda>text. \<lparr>lineText = text, startTime = 0\<rparr>) (nonEmptyLines lyrics)"
proof (cases "readyState audio < 1")
  case True
  then show ?thesis
    using parse_plain_waiting [OF assms(1,2)] by (simp add: placeholderTimings_def)
next
  case False
  with assms(3) have "1 \<le> readyState audio"
    "\<not> isFinite (duration audio) \<or> leZero (duration audio)" by auto
  then show ?thesis
    using parse_plain_ready [OF assms(1,2), of audio st]
      calculateTimings_placeholder [of audio "nonEmptyLines lyrics"]
    by (simp add: placeholderTimings_def)
qed

lemma parse_plain_lineText:
  assumes "lyrics \<noteq> []" and "\<not> isLrc (nonEmptyLines lyrics)"
  shows "map lineText (timedLyrics (parseLyricsEffect lyrics (Some audio) st)) = nonEmptyLines lyrics"
  by (simp only: parse_plain [OF assms] lineText_calculateTimings lineText_placeholderTimings
      if_distrib [of "map lineText"] if_distrib [of timedLyrics] if_cancel)


lemma parsedLrcLines_filter:
  "parsedLrcLines (filter (\<lambda>line. matchAll line \<noteq> []) lines) = parsedLrcLines lines"
  by (induction lines) (auto simp: parsedLrcLines_def lineEntries_def)

lemma length_parsedLrcLines:
  "length (parsedLrcLines lines) = sum_list (map (\<lambda>line. length (matchAll line)) lines)"
  by (induction lines) (auto simp: parsedLrcLines_def lineEntries_def Let_def)


subsection \<open>The timestamp pattern and the specification's timestamps\<close>









lemma lit_shape: "lit P s = Some r \<Longrightarrow> \<exists>c. P c \<and> s = c # r"
  by (cases s) (auto split: if_splits)

lemma digitsN_shape:
  "digitsN n s = Some (ds, r) \<Longrightarrow> length ds = n \<and> list_all isDigit ds \<and> s = ds @ r"
  using digitsN_length digitsN_digits by blast

lemma fractionAndClose_shape:
  assumes "fractionAndClose s = Some (ff, r)"
  shows "(length ff = 2 \<or> length ff = 3) \<and> list_all isDigit ff \<and> s = ff @ 93 # r"
proof -
  from assms have "\<exists>n s1. (n = Suc (Suc 0) \<or> n = Suc (Suc (Suc 0)))
      \<and> digitsN n s = Some (ff, s1) \<and> lit (\<lambda>c. c = 93) s1 = Some r"
    by (auto simp: fractionAndClose_def split: option.splits bind_splits)
  then show ?thesis
    by (auto dest!: digitsN_shape lit_shape)
qed

lemma lrcTimestampRegex_shape:
  assumes "lrcTimestampRegex s = Some ((mm, ss, ff), r)"
  shows "length mm = 2 \<and> length ss = 2 \<and> (length ff = 2 \<or> length ff = 3)
         \<and> list_all isDigit mm \<and> list_all isDigit ss \<and> list_all isDigit ff
         \<and> (\<exists>sep. (sep = 46 \<or> sep = 58) \<and> s = [91] @ mm @ [58] @ ss @ [sep] @ ff @ [93] @ r)"
proof -
  from assms have "\<exists>s1 s2 s3 s4 s5.
    lit (\<lambda>c. c = 91) s = Some s1 \<and> digitsN (Suc (Suc 0)) s1 = Some (mm, s2)
    \<and> lit (\<lambda>c. c = 58) s2 = Some s3 \<and> digitsN (Suc (Suc 0)) s3 = Some (ss, s4)
    \<and> lit (\<lambda>c. c = 46 \<or> c = 58) s4 = Some s5 \<and> fractionAndClose s5 = Some (ff, r)"
    by (auto simp: lrcTimestampRegex_def split: bind_splits)
  then show ?thesis
    by (auto dest!: digitsN_shape lit_shape fractionAndClose_shape)
qed



subsection \<open>Evaluating the examples\<close>

lemma bitlen_numeral_eval:
  "bitlen (numeral (Num.Bit0 n)) = bitlen (numeral n) + 1"
  "bitlen (numeral (Num.Bit1 n)) = bitlen (numeral n) + 1"
  "bitlen 1 = 1"
  by (subst compute_bitlen; simp)+

lemmas double_eval = roundToDouble_def leadingExponent_def roundHalfEven_def bitlen_numeral_eval
  Let_def power_int_minus

lemmas regex_eval = js_def lrcTimestampRegex_def fractionAndClose_def isDigit_def

lemmas line_eval = lineEntries_def trim_def isWhiteSpace_def timestampSeconds_def parseInt_def

lemma exampleLrc_lines:
  "exampleLrc \<noteq> [] \<and> nonEmptyLines exampleLrc = [js ''[00:15.32] A'', js ''[00:17.81] B'']"
  by (simp add: exampleLrc_def nonEmptyLines_def js_def trim_def isWhiteSpace_def)

lemma exampleLrc_entries:
  "lineEntries (js ''[00:15.32] A'') = [\<lparr>lineText = js ''A'', startTime = 15.32\<rparr>]"
  "lineEntries (js ''[00:17.81] B'') = [\<lparr>lineText = js ''B'', startTime = 17.81\<rparr>]"
  by (simp_all add: regex_eval line_eval)

lemma exampleLrc_parsed:
  "timedLyrics (parseLyricsEffect exampleLrc (Some audio) st)
   = [\<lparr>lineText = js ''A'', startTime = 15.32\<rparr>, \<lparr>lineText = js ''B'', startTime = 17.81\<rparr>]"
proof -
  have "parsedLrcLines (nonEmptyLines exampleLrc)
        = [\<lparr>lineText = js ''A'', startTime = 15.32\<rparr>, \<lparr>lineText = js ''B'', startTime = 17.81\<rparr>]"
    by (simp add: exampleLrc_lines parsedLrcLines_def exampleLrc_entries)
  then show ?thesis
    by (simp add: parse_timestamped isLrc_parsed)
qed

lemma exampleUnsorted_lines:
  "exampleUnsorted \<noteq> []"
  "nonEmptyLines exampleUnsorted = [js ''[00:17.81] B'', js ''[00:15.32] A'']"
  by (simp_all add: exampleUnsorted_def nonEmptyLines_def js_def trim_def isWhiteSpace_def)

lemma exampleUnsorted_parsed:
  "parsedLrcLines (nonEmptyLines exampleUnsorted)
   = [\<lparr>lineText = js ''B'', startTime = 17.81\<rparr>, \<lparr>lineText = js ''A'', startTime = 15.32\<rparr>]"
  by (simp add: exampleUnsorted_lines parsedLrcLines_def exampleLrc_entries)


lemma exampleLate_parsed:
  "parsedLrcLines (nonEmptyLines exampleLate) = [\<lparr>lineText = js ''X'', startTime = 10.2\<rparr>]"
proof -
  have l: "nonEmptyLines exampleLate = [js ''[00:10.20] X'']"
    by (simp add: exampleLate_def nonEmptyLines_def js_def trim_def isWhiteSpace_def)
  have e: "lineEntries (js ''[00:10.20] X'') = [\<lparr>lineText = js ''X'', startTime = 10.2\<rparr>]"
    by (simp add: regex_eval line_eval)
  show ?thesis
    by (simp add: l parsedLrcLines_def e)
qed

lemma exampleBlankLines_lines:
  "exampleBlankLines \<noteq> []"
  "trim exampleBlankLines = exampleBlankLines"
  "split_nl exampleBlankLines = [js ''[00:01.00]a'', [], [], js ''[00:02.00]b'']"
  by (simp_all add: exampleBlankLines_def js_def trim_def isWhiteSpace_def)

lemma exampleBlankLines_tests:
  "lrcLineRegex_test (trim (js ''[00:01.00]a''))"
  "lrcLineRegex_test (trim (js ''[00:02.00]b''))"
  "\<not> lrcLineRegex_test (trim [])" "\<not> lrcLineRegex_test []"
  "trim (js ''[00:01.00]a'') \<noteq> []" "trim (js ''[00:02.00]b'') \<noteq> []" "trim [] = []"
  by (simp_all add: lrcLineRegex_test_def regex_eval trim_def isWhiteSpace_def)

lemma exampleMalformed_lines:
  "exampleMalformed \<noteq> []"
  "nonEmptyLines exampleMalformed = [js ''[1:2.3]text'', js ''more'']"
  by (simp_all add: exampleMalformed_def nonEmptyLines_def js_def trim_def isWhiteSpace_def)

lemma exampleMalformed_matches:
  "matchAll (js ''[1:2.3]text'') = []" "matchAll (js ''more'') = []"
  by (simp_all add: regex_eval)

lemma exampleMalformed_parsed:
  "timedLyrics (parseLyricsEffect exampleMalformed (Some (readyAudio (Num 10))) st)
   = [\<lparr>lineText = js ''[1:2.3]text'', startTime = 0\<rparr>, \<lparr>lineText = js ''more'', startTime = 5\<rparr>]"
proof -
  have "\<not> isLrc (nonEmptyLines exampleMalformed)"
    by (simp add: isLrc_iff exampleMalformed_lines exampleMalformed_matches)
  then have "timedLyrics (parseLyricsEffect exampleMalformed (Some (readyAudio (Num 10))) st)
      = calculateTimings (nonEmptyLines exampleMalformed) (readyAudio (Num 10))"
    using parse_plain [OF exampleMalformed_lines(1)] by (simp add: readyAudio_def)
  also have "\<dots> = [\<lparr>lineText = js ''[1:2.3]text'', startTime = 0\<rparr>,
                      \<lparr>lineText = js ''more'', startTime = 5\<rparr>]"
    by (simp add: exampleMalformed_lines calculateTimings_def readyAudio_def enumerate_eq_zip
        upt_rec [of 0] upt_rec [of 1])
  finally show ?thesis .
qed

lemma exampleMixed_lines:
  "nonEmptyLines exampleMixed = [js ''[00:15.32] A'', js ''plain words'']"
  "matchAll (js ''plain words'') = []"
  "matchAll (js ''[00:15.32] A'') \<noteq> []"
  by (simp_all add: exampleMixed_def nonEmptyLines_def js_def trim_def isWhiteSpace_def
      lrcTimestampRegex_def fractionAndClose_def isDigit_def)

section \<open>The claims\<close>

subsection \<open>C1: the active line\<close>

text \<open>
  Claim C1. For every sequence of timed lines (sorted or not), every offset and every clock
  position \<open>t\<close>, the index that \<^verbatim>\<open>animate\<close> computes is the greatest \<open>i\<close> with
  \<open>startTime (ls ! i) + offset \<le> t\<close>, and \<open>- 1\<close> when no index qualifies, which
  includes the empty sequence. The sum is the one the code computes, the double nearest to
  the exact sum: \<open>lineStarted\<close> is this test, on doubles it is \<open>plusDouble\<close> compared
  with \<open>t\<close>, and where the exact sum is itself a double it is the comparison of the exact
  sum with \<open>t\<close>. The bound is inclusive, and since the greatest qualifying index is
  returned, the last of several lines with one start time wins.
\<close>

theorem animate_resolves_greatest_index:
  fixes st :: KaraokeState and audio :: Audio
  defines "ls \<equiv> timedLyrics st" and "off \<equiv> timingOffset st" and "t \<equiv> currentTime audio"
    and "r \<equiv> currentLineIndex (animate audio st)"
  shows "((r = - 1 \<and> (\<forall>i < length ls. \<not> lineStarted (startTime (ls ! i)) off t))
          \<or> (0 \<le> r \<and> nat r < length ls \<and> lineStarted (startTime (ls ! nat r)) off t
              \<and> (\<forall>j < length ls. lineStarted (startTime (ls ! j)) off t \<longrightarrow> j \<le> nat r)))
         \<and> (ls = [] \<longrightarrow> r = - 1)
         \<and> (\<forall>i < length ls.
               plusDouble (dbl (startTime (ls ! i))) (dbl off) = Num (dbl t) \<longrightarrow> int i \<le> r)
         \<and> (\<forall>i j. i < j \<and> j < length ls \<and> startTime (ls ! i) = startTime (ls ! j) \<and> r = int i
               \<longrightarrow> False)
         \<and> (\<forall>x. dbl x = x \<and> dbl off = off \<and> dbl t = t \<longrightarrow>
               (lineStarted x off t \<longleftrightarrow> geNum t (plusDouble x off)))
         \<and> (\<forall>x. dbl x = x \<and> dbl off = off \<and> dbl t = t
                 \<and> roundToDouble (x + off) = Num (x + off) \<longrightarrow>
               (lineStarted x off t \<longleftrightarrow> x + off \<le> t))"
proof -
  have r: "r = scanBack ls off t (length ls)"
    by (simp add: r_def animate_def newIndex_def ls_def off_def t_def)
  have main: "(r = - 1 \<and> (\<forall>i < length ls. \<not> lineStarted (startTime (ls ! i)) off t))
          \<or> (0 \<le> r \<and> nat r < length ls \<and> lineStarted (startTime (ls ! nat r)) off t
              \<and> (\<forall>j < length ls. lineStarted (startTime (ls ! j)) off t \<longrightarrow> j \<le> nat r))"
  proof (cases "r = - 1")
    case True
    then show ?thesis
      using scanBack_none [of ls off t "length ls"] r by auto
  next
    case False
    then show ?thesis
      using scanBack_some [of ls off t "length ls"] r by auto
  qed
  have empty: "ls = [] \<longrightarrow> r = - 1"
    by (simp add: r)
  have incl: "\<forall>i < length ls.
      plusDouble (dbl (startTime (ls ! i))) (dbl off) = Num (dbl t) \<longrightarrow> int i \<le> r"
  proof (intro allI impI)
    fix i
    assume i: "i < length ls"
      and eq: "plusDouble (dbl (startTime (ls ! i))) (dbl off) = Num (dbl t)"
    then have "lineStarted (startTime (ls ! i)) off t"
      by (simp add: lineStarted_def)
    with main i show "int i \<le> r" by auto
  qed
  have ties: "\<forall>i j. i < j \<and> j < length ls \<and> startTime (ls ! i) = startTime (ls ! j) \<and> r = int i
               \<longrightarrow> False"
  proof (intro allI impI)
    fix i j
    assume a: "i < j \<and> j < length ls \<and> startTime (ls ! i) = startTime (ls ! j) \<and> r = int i"
    with main have "lineStarted (startTime (ls ! j)) off t" "\<forall>k < length ls.
        lineStarted (startTime (ls ! k)) off t \<longrightarrow> k \<le> i"
      by auto
    with a show False by auto
  qed
  have code: "\<forall>x. dbl x = x \<and> dbl off = off \<and> dbl t = t \<longrightarrow>
               (lineStarted x off t \<longleftrightarrow> geNum t (plusDouble x off))"
    by (simp add: lineStarted_def)
  have exact: "\<forall>x. dbl x = x \<and> dbl off = off \<and> dbl t = t
                 \<and> roundToDouble (x + off) = Num (x + off) \<longrightarrow>
               (lineStarted x off t \<longleftrightarrow> x + off \<le> t)"
    by (simp add: lineStarted_def plusDouble_def)
  from main empty incl ties code exact show ?thesis by blast
qed

text \<open>
  The sequence with start times 0, 5, 10, the default offset \<open>- 0.3\<close> and clock position 5
  resolves to index 1; with start times 0, 5, 5 and offset 0 the later of the two tied lines
  is active. Rounding decides at the boundary, as in the code: start time 1 with offset 0.2
  is active at the clock position 1.2, although the exact sum of the doubles is above the
  clock position (it rounds to it), and start time 0.1 with offset 0.2 is not active at 0.3
  (the sum rounds to the double above the double of 0.3). A tie rounds to the even double, a
  sum beyond the largest double is an infinity, and the smallest spacing is \<open>2 ^ - 1074\<close>.
\<close>

theorem animate_resolves_greatest_index_witness:
  "currentLineIndex (animate (readyAudio (Num 12)\<lparr>currentTime := 5\<rparr>)
      (initialState\<lparr>timedLyrics := exampleLines [0, 5, 10]\<rparr>)) = 1
   \<and> currentLineIndex (animate (readyAudio (Num 12)\<lparr>currentTime := 5\<rparr>)
      (initialState\<lparr>timedLyrics := exampleLines [0, 5, 5], timingOffset := 0\<rparr>)) = 2
   \<and> currentLineIndex (animate (readyAudio (Num 12)\<lparr>currentTime := 1.2\<rparr>)
      (initialState\<lparr>timedLyrics := exampleLines [1], timingOffset := 0.2\<rparr>)) = 0
   \<and> currentLineIndex (animate (readyAudio (Num 12)\<lparr>currentTime := dbl 1.2\<rparr>)
      (initialState\<lparr>timedLyrics := exampleLines [1], timingOffset := dbl 0.2\<rparr>)) = 0
   \<and> \<not> 1 + dbl 0.2 \<le> dbl 1.2
   \<and> dbl 1 = 1 \<and> dbl (dbl 0.2) = dbl 0.2 \<and> dbl (dbl 1.2) = dbl 1.2
   \<and> (lineStarted 1 (dbl 0.2) (dbl 1.2) \<longleftrightarrow> geNum (dbl 1.2) (plusDouble 1 (dbl 0.2)))
   \<and> dbl 5 = 5 \<and> dbl 0 = 0 \<and> roundToDouble (5 + 0) = Num (5 + 0)
   \<and> currentLineIndex (animate (readyAudio (Num 12)\<lparr>currentTime := 0.3\<rparr>)
      (initialState\<lparr>timedLyrics := exampleLines [0.1], timingOffset := 0.2\<rparr>)) = - 1
   \<and> currentLineIndex (animate (readyAudio (Num 12)\<lparr>currentTime := dbl 0.3\<rparr>)
      (initialState\<lparr>timedLyrics := exampleLines [dbl 0.1], timingOffset := dbl 0.2\<rparr>)) = - 1
   \<and> lineStarted 1 (1 / 2 ^ 53) 1
   \<and> \<not> lineStarted 1 (3 / 2 ^ 53) (1 + 1 / 2 ^ 52)
   \<and> \<not> lineStarted (2 ^ 1023) (2 ^ 1023) (2 ^ 1023)
   \<and> lineStarted (- (2 ^ 1023)) (- (2 ^ 1023)) 0
   \<and> dbl (3 / 2 ^ 1075) = 1 / 2 ^ 1073"
proof -
  have corner: "lineStarted 1 (1 / 2 ^ 53) 1"
    "\<not> lineStarted 1 (3 / 2 ^ 53) (1 + 1 / 2 ^ 52)"
    "\<not> lineStarted (2 ^ 1023) (2 ^ 1023) (2 ^ 1023)"
    "lineStarted (- (2 ^ 1023)) (- (2 ^ 1023)) 0"
    "dbl (3 / 2 ^ 1075) = 1 / 2 ^ 1073"
    by (simp_all add: lineStarted_def plusDouble_def dbl_def double_eval)
  have a: "lineStarted 5 (- 0.3) 5" "\<not> lineStarted 10 (- 0.3) 5" "lineStarted 5 0 5"
    "lineStarted 1 0.2 1.2" "lineStarted 1 (dbl 0.2) (dbl 1.2)"
    "\<not> lineStarted 0.1 0.2 0.3" "\<not> lineStarted (dbl 0.1) (dbl 0.2) (dbl 0.3)"
    by (simp_all add: lineStarted_def plusDouble_def dbl_def double_eval)
  have b: "\<not> 1 + dbl 0.2 \<le> dbl 1.2"
    "dbl 1 = 1" "dbl (dbl 0.2) = dbl 0.2" "dbl (dbl 1.2) = dbl 1.2"
    "dbl 5 = 5" "dbl 0 = 0" "roundToDouble (5 + 0) = Num (5 + 0)"
    by (simp_all add: dbl_def double_eval)
  have e: "lineStarted 1 (dbl 0.2) (dbl 1.2) \<longleftrightarrow> geNum (dbl 1.2) (plusDouble 1 (dbl 0.2))"
    by (simp only: lineStarted_def b(2,3,4))
  have c: "currentLineIndex (animate (readyAudio (Num 12)\<lparr>currentTime := 5\<rparr>)
      (initialState\<lparr>timedLyrics := exampleLines [0, 5, 5], timingOffset := 0\<rparr>)) = 2"
    using animate_resolves_greatest_index
      [of "readyAudio (Num 12)\<lparr>currentTime := 5\<rparr>"
          "initialState\<lparr>timedLyrics := exampleLines [0, 5, 5], timingOffset := 0\<rparr>"] a(3)
    by (simp add: animate_def newIndex_def initialState_def exampleLines_def readyAudio_def
        numeral_3_eq_3)
  have main: "currentLineIndex (animate (readyAudio (Num 12)\<lparr>currentTime := 5\<rparr>)
      (initialState\<lparr>timedLyrics := exampleLines [0, 5, 10]\<rparr>)) = 1
   \<and> currentLineIndex (animate (readyAudio (Num 12)\<lparr>currentTime := 1.2\<rparr>)
      (initialState\<lparr>timedLyrics := exampleLines [1], timingOffset := 0.2\<rparr>)) = 0
   \<and> currentLineIndex (animate (readyAudio (Num 12)\<lparr>currentTime := dbl 1.2\<rparr>)
      (initialState\<lparr>timedLyrics := exampleLines [1], timingOffset := dbl 0.2\<rparr>)) = 0
   \<and> currentLineIndex (animate (readyAudio (Num 12)\<lparr>currentTime := 0.3\<rparr>)
      (initialState\<lparr>timedLyrics := exampleLines [0.1], timingOffset := 0.2\<rparr>)) = - 1
   \<and> currentLineIndex (animate (readyAudio (Num 12)\<lparr>currentTime := dbl 0.3\<rparr>)
      (initialState\<lparr>timedLyrics := exampleLines [dbl 0.1], timingOffset := dbl 0.2\<rparr>)) = - 1"
    using a
    by (simp add: animate_def newIndex_def initialState_def readyAudio_def exampleLines_def
        numeral_3_eq_3)
  from main b c e corner show ?thesis
    by blast
qed

subsection \<open>C2: the parsed sequence is sorted\<close>

text \<open>
  Claim C2. For every lyric input the sequence the parser stores has non-decreasing start
  times in index order, and it still has after the \<^verbatim>\<open>loadedmetadata\<close> listener has
  replaced the placeholder. In the timestamped branch the stored sequence is the stable sort
  by start time of the extracted lines: entries with equal start times keep their extraction
  order. The empty string stores nothing; the sequence of a freshly mounted component is
  sorted for every input.
\<close>

theorem parsed_sequence_sorted:
  fixes lyrics :: jsstring and audio audio' :: Audio and st :: KaraokeState
  defines "P \<equiv> parseLyricsEffect lyrics (Some audio) st"
    and "lines \<equiv> nonEmptyLines lyrics"
  shows "(lyrics \<noteq> [] \<longrightarrow>
            sorted (map startTime (timedLyrics P))
            \<and> sorted (map startTime (timedLyrics (loadedmetadata audio' P))))
         \<and> (isLrc lines \<longrightarrow>
              timedLyrics P = sort_key startTime (parsedLrcLines lines)
              \<and> sorted (map startTime (timedLyrics P))
              \<and> (\<forall>k. filter (\<lambda>l. startTime l = k) (timedLyrics P)
                      = filter (\<lambda>l. startTime l = k) (parsedLrcLines lines)))
         \<and> sorted (map startTime (timedLyrics (parseLyricsEffect lyrics audioRef initialState)))"
proof -
  have a: "sorted (map startTime (timedLyrics P))" if "lyrics \<noteq> []"
    unfolding P_def using that by (intro sorted_parseLyricsEffect) simp
  have b: "sorted (map startTime (timedLyrics (loadedmetadata audio' P)))" if "lyrics \<noteq> []"
    using a [OF that] by (rule sorted_loadedmetadata)
  have c: "timedLyrics P = sort_key startTime (parsedLrcLines lines)" if "isLrc lines"
    using that unfolding P_def lines_def by (simp add: parse_timestamped)
  have d: "filter (\<lambda>l. startTime l = k) (timedLyrics P)
           = filter (\<lambda>l. startTime l = k) (parsedLrcLines lines)" if "isLrc lines" for k
    by (simp only: c [OF that] sort_key_stable)
  have e: "sorted (map startTime (timedLyrics P))" if "isLrc lines"
    by (simp only: c [OF that] sorted_sort_key)
  have f: "sorted (map startTime (timedLyrics (parseLyricsEffect lyrics audioRef initialState)))"
    by (intro sorted_parseLyricsEffect) (simp add: initialState_def)
  from a b c d e f show ?thesis by blast
qed

text \<open>Two timestamped lines given out of order are stored in order.\<close>

theorem parsed_sequence_sorted_witness:
  "exampleUnsorted \<noteq> [] \<and> isLrc (nonEmptyLines exampleUnsorted)
   \<and> timedLyrics (parseLyricsEffect exampleUnsorted (Some (readyAudio (Num 20))) initialState)
       = [\<lparr>lineText = js ''A'', startTime = 15.32\<rparr>, \<lparr>lineText = js ''B'', startTime = 17.81\<rparr>]
   \<and> sorted (map startTime
        (timedLyrics (parseLyricsEffect exampleUnsorted (Some (readyAudio (Num 20))) initialState)))"
proof -
  have lrc: "isLrc (nonEmptyLines exampleUnsorted)"
    by (simp add: isLrc_parsed exampleUnsorted_parsed)
  from parsed_sequence_sorted [where lyrics = exampleUnsorted and audio = "readyAudio (Num 20)"
      and st = initialState] lrc
  have "timedLyrics (parseLyricsEffect exampleUnsorted (Some (readyAudio (Num 20))) initialState)
          = sort_key startTime (parsedLrcLines (nonEmptyLines exampleUnsorted))"
    and s: "sorted (map startTime
        (timedLyrics (parseLyricsEffect exampleUnsorted (Some (readyAudio (Num 20))) initialState)))"
    by blast+
  then have "timedLyrics (parseLyricsEffect exampleUnsorted (Some (readyAudio (Num 20))) initialState)
       = [\<lparr>lineText = js ''A'', startTime = 15.32\<rparr>, \<lparr>lineText = js ''B'', startTime = 17.81\<rparr>]"
    by (simp add: exampleUnsorted_parsed)
  with lrc s exampleUnsorted_lines(1) show ?thesis by blast
qed

subsection \<open>C3: timestamps become timed lines\<close>



subsection \<open>C4: even division\<close>




subsection \<open>C5: the marquee duration\<close>

text \<open>
  Claim C5, amended. For every sequence and every index that is negative or valid, the
  marquee duration is: 0 when the index is negative or the sequence is empty; the next
  line's start time minus the current line's when a next line exists; the audio duration
  minus the current line's start time on the last line when the audio element reports a
  duration that is neither NaN nor 0; and 5 otherwise, which includes a reported duration of
  0. For start times 0, 5, 8: index 1 gives 3, index 2 with duration 12 gives 4, index 2 with
  an unknown duration gives 5.
\<close>

theorem marquee_duration_cases:
  fixes st :: KaraokeState and audioRef :: "Audio option"
  defines "ls \<equiv> timedLyrics st" and "i \<equiv> currentLineIndex st"
  shows "(i < 0 \<or> ls = [] \<longrightarrow> getMarqueeDuration audioRef st = Inr (Num 0))
       \<and> (0 \<le> i \<and> nat i + 1 < length ls \<longrightarrow>
            getMarqueeDuration audioRef st
              = Inr (Num (startTime (ls ! (nat i + 1)) - startTime (ls ! nat i))))
       \<and> (0 \<le> i \<and> nat i + 1 = length ls \<and> audioRef = Some audio \<and> truthy (duration audio) \<longrightarrow>
            getMarqueeDuration audioRef st
              = Inr (minusNum (duration audio) (startTime (ls ! nat i))))
       \<and> (0 \<le> i \<and> nat i + 1 = length ls
            \<and> (audioRef = None \<or> audioRef = Some audio \<and> \<not> truthy (duration audio)) \<longrightarrow>
            getMarqueeDuration audioRef st = Inr (Num 5))
       \<and> (truthy d \<longleftrightarrow> d \<noteq> NaN \<and> d \<noteq> Num 0)
       \<and> getMarqueeDuration audioRef (marqueeExample 1) = Inr (Num 3)
       \<and> getMarqueeDuration (Some (readyAudio (Num 12))) (marqueeExample 2) = Inr (Num 4)
       \<and> getMarqueeDuration (Some (readyAudio NaN)) (marqueeExample 2) = Inr (Num 5)"
proof -
  have 1: "i < 0 \<or> ls = [] \<longrightarrow> getMarqueeDuration audioRef st = Inr (Num 0)"
    by (auto simp: getMarqueeDuration_def ls_def i_def)
  have 2: "0 \<le> i \<and> nat i + 1 < length ls \<longrightarrow>
            getMarqueeDuration audioRef st
              = Inr (Num (startTime (ls ! (nat i + 1)) - startTime (ls ! nat i)))"
    by (auto simp: getMarqueeDuration_def ls_def i_def Let_def)
  have 3: "0 \<le> i \<and> nat i + 1 = length ls \<and> audioRef = Some audio \<and> truthy (duration audio) \<longrightarrow>
            getMarqueeDuration audioRef st
              = Inr (minusNum (duration audio) (startTime (ls ! nat i)))"
    by (auto simp: getMarqueeDuration_def ls_def i_def Let_def)
  have 4: "0 \<le> i \<and> nat i + 1 = length ls
            \<and> (audioRef = None \<or> audioRef = Some audio \<and> \<not> truthy (duration audio)) \<longrightarrow>
            getMarqueeDuration audioRef st = Inr (Num 5)"
    by (auto simp: getMarqueeDuration_def ls_def i_def Let_def)
  have 5: "truthy d \<longleftrightarrow> d \<noteq> NaN \<and> d \<noteq> Num 0"
    by (cases d) auto
  have 6: "getMarqueeDuration audioRef (marqueeExample 1) = Inr (Num 3)"
    by (simp add: getMarqueeDuration_def marqueeExample_def initialState_def exampleLines_def
        Let_def)
  have 7: "getMarqueeDuration (Some (readyAudio (Num 12))) (marqueeExample 2) = Inr (Num 4)"
    by (simp add: getMarqueeDuration_def marqueeExample_def initialState_def exampleLines_def
        readyAudio_def Let_def)
  have 8: "getMarqueeDuration (Some (readyAudio NaN)) (marqueeExample 2) = Inr (Num 5)"
    by (simp add: getMarqueeDuration_def marqueeExample_def initialState_def exampleLines_def
        readyAudio_def Let_def)
  show ?thesis
    by (intro conjI 1 2 3 4 5 6 7 8)
qed

text \<open>The last line of the example with a duration of 12.\<close>

theorem marquee_duration_cases_witness:
  "(0::int) \<le> 2 \<and> nat 2 + 1 = length (timedLyrics (marqueeExample 2))
   \<and> truthy (duration (readyAudio (Num 12)))
   \<and> getMarqueeDuration (Some (readyAudio (Num 12))) (marqueeExample 2) = Inr (Num 4)"
  using marquee_duration_cases [of "marqueeExample 2" "Some (readyAudio (Num 12))"
      "readyAudio (Num 12)"]
  by (simp add: marqueeExample_def initialState_def exampleLines_def readyAudio_def)

text \<open>
  The claim as the specification words it fails where the duration is known to be 0: on the
  last line of the example the code answers 5, the specification \<open>0 - 8\<close>.
\<close>

theorem marquee_duration_zero_duration_counterexample:
  "getMarqueeDuration (Some (readyAudio (Num 0))) (marqueeExample 2) = Inr (Num 5)
   \<and> specMarqueeDuration (Num 0) 2 (exampleLines [0, 5, 8]) = Num (- 8)
   \<and> getMarqueeDuration (Some (readyAudio (Num 0))) (marqueeExample 2)
       \<noteq> Inr (specMarqueeDuration (Num 0) 2 (exampleLines [0, 5, 8]))"
  by (simp add: getMarqueeDuration_def specMarqueeDuration_def marqueeExample_def initialState_def
      readyAudio_def exampleLines_def Let_def)

subsection \<open>C6: the sign of the marquee duration\<close>

text \<open>
  Claim C6, amended. For every valid index into a parsed sequence (as stored by the parser,
  or as re-timed by the \<^verbatim>\<open>loadedmetadata\<close> listener): when a next line exists the
  marquee duration is not negative; on the last line it is 5 when no duration is available;
  and on the last line with an available duration it is the duration minus the line's start
  time, which is negative exactly when the duration is smaller than that start time.
\<close>

theorem marquee_duration_sign:
  fixes lyrics :: jsstring and audio0 audio1 audio :: Audio and st0 st :: KaraokeState
    and audioRef :: "Audio option" and i :: int and ls :: "TimedLine list"
  defines "P \<equiv> parseLyricsEffect lyrics (Some audio0) st0"
  assumes "lyrics \<noteq> []"
    and "ls = timedLyrics P \<or> ls = timedLyrics (loadedmetadata audio1 P)"
    and "timedLyrics st = ls" and "currentLineIndex st = i"
    and "0 \<le> i" and "nat i < length ls"
  shows "(nat i + 1 < length ls \<longrightarrow>
           (\<exists>x. getMarqueeDuration audioRef st = Inr (Num x) \<and> 0 \<le> x))
       \<and> (nat i + 1 = length ls
            \<and> (audioRef = None \<or> audioRef = Some audio \<and> \<not> truthy (duration audio)) \<longrightarrow>
           getMarqueeDuration audioRef st = Inr (Num 5))
       \<and> (nat i + 1 = length ls \<and> audioRef = Some audio \<and> truthy (duration audio) \<longrightarrow>
           getMarqueeDuration audioRef st
             = Inr (minusNum (duration audio) (startTime (ls ! nat i)))
           \<and> (isNegative (minusNum (duration audio) (startTime (ls ! nat i)))
                \<longleftrightarrow> duration audio = NegInfinity
                    \<or> (\<exists>d. duration audio = Num d \<and> d < startTime (ls ! nat i))))"
proof -
  have "sorted (map startTime (timedLyrics P))"
    unfolding P_def using assms(2) by (intro sorted_parseLyricsEffect) simp
  then have sorted: "sorted (map startTime ls)"
    using assms(3) sorted_loadedmetadata by blast
  have 1: "nat i + 1 < length ls \<longrightarrow>
           (\<exists>x. getMarqueeDuration audioRef st = Inr (Num x) \<and> 0 \<le> x)"
    using sorted_startTime_next [OF sorted, of "nat i"] assms(4-7)
    by (auto simp: getMarqueeDuration_def Let_def)
  have 2: "nat i + 1 = length ls
            \<and> (audioRef = None \<or> audioRef = Some audio \<and> \<not> truthy (duration audio)) \<longrightarrow>
           getMarqueeDuration audioRef st = Inr (Num 5)"
    using assms(4-7) by (auto simp: getMarqueeDuration_def Let_def)
  have 3: "nat i + 1 = length ls \<and> audioRef = Some audio \<and> truthy (duration audio) \<longrightarrow>
           getMarqueeDuration audioRef st
             = Inr (minusNum (duration audio) (startTime (ls ! nat i)))
           \<and> (isNegative (minusNum (duration audio) (startTime (ls ! nat i)))
                \<longleftrightarrow> duration audio = NegInfinity
                    \<or> (\<exists>d. duration audio = Num d \<and> d < startTime (ls ! nat i)))"
    using assms(4-7) by (cases "duration audio") (auto simp: getMarqueeDuration_def Let_def)
  show ?thesis
    by (intro conjI 1 2 3)
qed

text \<open>The first line of the two-line example: a next line exists.\<close>

theorem marquee_duration_sign_witness:
  "exampleLrc \<noteq> []
   \<and> (0::int) \<le> 0
   \<and> nat 0 < length (timedLyrics (parseLyricsEffect exampleLrc (Some (readyAudio (Num 20))) initialState))
   \<and> (\<exists>x. getMarqueeDuration None
          (parseLyricsEffect exampleLrc (Some (readyAudio (Num 20))) initialState
             \<lparr>currentLineIndex := 0\<rparr>) = Inr (Num x) \<and> 0 \<le> x)"
proof -
  let ?P = "parseLyricsEffect exampleLrc (Some (readyAudio (Num 20))) initialState"
  have ne: "exampleLrc \<noteq> []"
    using exampleLrc_lines by simp
  have len: "nat 0 < length (timedLyrics ?P)" "nat 0 + 1 < length (timedLyrics ?P)"
    by (simp_all add: exampleLrc_parsed)
  have "\<exists>x. getMarqueeDuration None (?P\<lparr>currentLineIndex := 0\<rparr>) = Inr (Num x) \<and> 0 \<le> x"
    using marquee_duration_sign [where lyrics = exampleLrc and ?audio0.0 = "readyAudio (Num 20)"
        and ?st0.0 = initialState and ls = "timedLyrics ?P"
        and st = "?P\<lparr>currentLineIndex := 0\<rparr>" and i = 0 and audioRef = None, OF ne] len
    by simp
  with ne len show ?thesis by simp
qed

text \<open>
  A negative duration: the only line starts at 10.2 seconds, the track lasts 10 seconds, and
  with the default offset of \<open>- 0.3\<close> the line is active at the clock position 9.95.
\<close>

theorem marquee_duration_negative_counterexample:
  "getMarqueeDuration (Some lateAudio)
     (animate lateAudio (parseLyricsEffect exampleLate (Some lateAudio) initialState))
   = Inr (Num (- 0.2))
   \<and> isNegative (Num (- 0.2))"
proof -
  have "isLrc (nonEmptyLines exampleLate)"
    by (simp add: isLrc_parsed exampleLate_parsed)
  then have "parseLyricsEffect exampleLate (Some lateAudio) initialState
        = initialState\<lparr>metadataListener := None,
            timedLyrics := [\<lparr>lineText = js ''X'', startTime = 10.2\<rparr>]\<rparr>"
    by (simp add: parse_timestamped exampleLate_parsed)
  moreover have "lineStarted 10.2 (- 0.3) 9.95"
    by (simp add: lineStarted_def plusDouble_def dbl_def double_eval)
  ultimately show ?thesis
    by (simp add: animate_def newIndex_def getMarqueeDuration_def initialState_def lateAudio_def)
qed

subsection \<open>C7: the format validator\<close>

text \<open>
  Claim C7, amended. The validator accepts a text if and only if the text is not empty and
  more than half of the lines of the trimmed text match the timestamp pattern at their
  start after trimming; blank lines inside the text count as lines.
\<close>

theorem isLrcFormat_more_than_half_of_lines:
  "isLrcFormat text \<longleftrightarrow>
     text \<noteq> []
     \<and> length (split_nl (trim text))
         < 2 * length (filter (\<lambda>line. lrcLineRegex_test (trim line)) (split_nl (trim text)))"
proof -
  have "real c / real n > 0.5 \<longleftrightarrow> n < 2 * c" if "0 < n" for c n :: nat
    using that by (simp add: field_simps) linarith
  moreover have "0 < length (split_nl (trim text))"
    using split_nl_nonempty by simp
  ultimately show ?thesis
    by (simp add: isLrcFormat_def Let_def)
qed

text \<open>
  The two-line example is accepted; the empty text and the example with blank lines are not.
\<close>

theorem isLrcFormat_more_than_half_of_lines_witness:
  "isLrcFormat exampleLrc \<and> \<not> isLrcFormat exampleBlankLines \<and> \<not> isLrcFormat []"
proof -
  have "trim exampleLrc = exampleLrc"
    "split_nl exampleLrc = [js ''[00:15.32] A'', js ''[00:17.81] B'']"
    "lrcLineRegex_test (trim (js ''[00:15.32] A''))"
    "lrcLineRegex_test (trim (js ''[00:17.81] B''))"
    "exampleLrc \<noteq> []"
    by (simp_all add: exampleLrc_def js_def trim_def isWhiteSpace_def lrcLineRegex_test_def
        lrcTimestampRegex_def fractionAndClose_def isDigit_def)
  then show ?thesis
    using isLrcFormat_more_than_half_of_lines [of exampleLrc]
      isLrcFormat_more_than_half_of_lines [of exampleBlankLines]
      isLrcFormat_more_than_half_of_lines [of "[]"]
    by (simp add: exampleBlankLines_lines exampleBlankLines_tests)
qed

text \<open>
  Two timestamped lines with two blank lines between them: both non-empty lines match, but
  only two lines of four do, and the validator rejects the text.
\<close>

theorem isLrcFormat_blank_lines_counterexample:
  "\<not> isLrcFormat exampleBlankLines \<and> acceptedByNonEmptyLines exampleBlankLines"
  by (simp add: isLrcFormat_def acceptedByNonEmptyLines_def exampleBlankLines_lines
      exampleBlankLines_tests Let_def)

subsection \<open>C8: malformed and empty inputs\<close>

text \<open>
  Claim C8, amended. The effect has no error value, the source having no operation that
  can throw on this path, and its two scans of a line end because every match of the pattern
  consumes code units. A
  timestamp with wrong digit counts matches nothing: \<open>[1:2.3]text\<close> has no match, and every
  match has two digits of minutes, two of seconds and two or three of fraction. An input in
  which no line has a match keeps every non-empty line, in order and with its text, and
  times it by even division alone: line \<open>i\<close> at \<open>i * (D / N)\<close> when the metadata are
  loaded and the duration \<open>D\<close> is finite and positive, at 0 otherwise. A non-empty input
  whose lines are all blank stores the empty sequence. For the empty string the effect
  returns before it stores anything: the sequence stored before is kept, which is the empty
  one on a freshly mounted component.
\<close>

theorem malformed_and_empty_inputs:
  fixes lyrics :: jsstring and audio :: Audio and st :: KaraokeState and D :: real
  defines "lines \<equiv> nonEmptyLines lyrics"
    and "P \<equiv> parseLyricsEffect lyrics (Some audio) st"
  shows "matchAll (js ''[1:2.3]text'') = []
   \<and> (lrcTimestampRegex s = Some ((mm, ss, ff), r) \<longrightarrow>
        length mm = 2 \<and> length ss = 2 \<and> (length ff = 2 \<or> length ff = 3)
        \<and> list_all isDigit (mm @ ss @ ff) \<and> length r < length s)
   \<and> (lyrics \<noteq> [] \<and> (\<forall>line \<in> set lines. matchAll line = []) \<longrightarrow>
        map lineText (timedLyrics P) = lines
        \<and> (1 \<le> readyState audio \<and> duration audio = Num D \<and> 0 < D \<longrightarrow>
             timedLyrics P
               = map (\<lambda>i. \<lparr>lineText = lines ! i,
                            startTime = real i * (D / real (length lines))\<rparr>)
                   [0..<length lines])
        \<and> (readyState audio < 1 \<or> \<not> isFinite (duration audio) \<or> leZero (duration audio) \<longrightarrow>
             timedLyrics P = map (\<lambda>text. \<lparr>lineText = text, startTime = 0\<rparr>) lines))
   \<and> timedLyrics (parseLyricsEffect exampleMalformed (Some (readyAudio (Num 10))) st)
       = [\<lparr>lineText = js ''[1:2.3]text'', startTime = 0\<rparr>,
          \<lparr>lineText = js ''more'', startTime = 5\<rparr>]
   \<and> (lyrics \<noteq> [] \<and> lines = [] \<longrightarrow> timedLyrics P = [])
   \<and> timedLyrics (parseLyricsEffect [] audioRef st) = timedLyrics st
   \<and> timedLyrics (parseLyricsEffect [] audioRef initialState) = []"
proof -
  have 2: "lrcTimestampRegex s = Some ((mm, ss, ff), r) \<longrightarrow>
        length mm = 2 \<and> length ss = 2 \<and> (length ff = 2 \<or> length ff = 3)
        \<and> list_all isDigit (mm @ ss @ ff) \<and> length r < length s"
    using lrcTimestampRegex_shape [of s mm ss ff r] lrcTimestampRegex_length [of s "(mm, ss, ff)" r]
    by simp
  have 3: "map lineText (timedLyrics P) = lines
        \<and> (1 \<le> readyState audio \<and> duration audio = Num D \<and> 0 < D \<longrightarrow>
             timedLyrics P
               = map (\<lambda>i. \<lparr>lineText = lines ! i,
                            startTime = real i * (D / real (length lines))\<rparr>)
                   [0..<length lines])
        \<and> (readyState audio < 1 \<or> \<not> isFinite (duration audio) \<or> leZero (duration audio) \<longrightarrow>
             timedLyrics P = map (\<lambda>text. \<lparr>lineText = text, startTime = 0\<rparr>) lines)"
    if "lyrics \<noteq> [] \<and> (\<forall>line \<in> set lines. matchAll line = [])"
  proof -
    from that have plain: "lyrics \<noteq> []" "\<not> isLrc (nonEmptyLines lyrics)"
      by (simp_all add: isLrc_iff lines_def)
    show ?thesis
      unfolding P_def lines_def
      using parse_plain_lineText [OF plain, of audio st] parse_plain_even [OF plain, of audio D st]
        parse_plain_zeros [OF plain, of audio st]
      by blast
  qed
  have 5: "lyrics \<noteq> [] \<and> lines = [] \<longrightarrow> timedLyrics P = []"
    by (simp add: parseLyricsEffect_def Let_def P_def lines_def)
  have 6: "timedLyrics (parseLyricsEffect [] audioRef st) = timedLyrics st" for st
    by (simp add: parseLyricsEffect_def Let_def split: option.splits)
  have 7: "timedLyrics (parseLyricsEffect [] audioRef initialState) = []"
    by (simp add: 6 initialState_def)
  from 3 have fallback: "lyrics \<noteq> [] \<and> (\<forall>line \<in> set lines. matchAll line = []) \<longrightarrow>
        map lineText (timedLyrics P) = lines
        \<and> (1 \<le> readyState audio \<and> duration audio = Num D \<and> 0 < D \<longrightarrow>
             timedLyrics P
               = map (\<lambda>i. \<lparr>lineText = lines ! i,
                            startTime = real i * (D / real (length lines))\<rparr>)
                   [0..<length lines])
        \<and> (readyState audio < 1 \<or> \<not> isFinite (duration audio) \<or> leZero (duration audio) \<longrightarrow>
             timedLyrics P = map (\<lambda>text. \<lparr>lineText = text, startTime = 0\<rparr>) lines)"
    by blast
  show ?thesis
    by (intro conjI exampleMalformed_matches(1) 2 fallback exampleMalformed_parsed 5 6 7)
qed

text \<open>
  A line feed and a space: the stored sequence is emptied. The malformed line followed by a
  plain one: both lines are kept and timed by even division.
\<close>

theorem malformed_and_empty_inputs_witness:
  "[10, 32] \<noteq> [] \<and> nonEmptyLines [10, 32] = []
   \<and> timedLyrics (parseLyricsEffect [10, 32] (Some (readyAudio (Num 10)))
        (initialState\<lparr>timedLyrics := exampleLines [0, 5, 8]\<rparr>)) = []
   \<and> exampleMalformed \<noteq> []
   \<and> nonEmptyLines exampleMalformed = [js ''[1:2.3]text'', js ''more'']
   \<and> matchAll (js ''[1:2.3]text'') = [] \<and> matchAll (js ''more'') = []
   \<and> map lineText (timedLyrics (parseLyricsEffect exampleMalformed (Some waitingAudio) initialState))
       = [js ''[1:2.3]text'', js ''more'']
   \<and> map startTime (timedLyrics (parseLyricsEffect exampleMalformed (Some waitingAudio) initialState))
       = [0, 0]"
proof -
  have blank: "nonEmptyLines [10, 32] = []"
    by (simp add: nonEmptyLines_def trim_def isWhiteSpace_def)
  have a: "timedLyrics (parseLyricsEffect [10, 32] (Some (readyAudio (Num 10)))
        (initialState\<lparr>timedLyrics := exampleLines [0, 5, 8]\<rparr>)) = []"
    using malformed_and_empty_inputs [where lyrics = "[10, 32]" and audio = "readyAudio (Num 10)"
        and st = "initialState\<lparr>timedLyrics := exampleLines [0, 5, 8]\<rparr>"] blank
    by blast
  have nomatch: "\<forall>line \<in> set (nonEmptyLines exampleMalformed). matchAll line = []"
    by (simp add: exampleMalformed_lines exampleMalformed_matches)
  have waiting: "readyState waitingAudio < 1"
    by (simp add: waitingAudio_def)
  have b: "timedLyrics (parseLyricsEffect exampleMalformed (Some waitingAudio) initialState)
      = map (\<lambda>text. \<lparr>lineText = text, startTime = 0\<rparr>) (nonEmptyLines exampleMalformed)"
    using malformed_and_empty_inputs [where lyrics = exampleMalformed and audio = waitingAudio
        and st = initialState] nomatch exampleMalformed_lines(1) waiting
    by blast
  show ?thesis
    using blank a exampleMalformed_lines(1)
    by (simp add: b exampleMalformed_lines exampleMalformed_matches)
qed

text \<open>
  The claim as the specification words it fails for the empty string when a sequence is
  stored: the effect returns at its first line and the three stored lines stay.
\<close>

theorem empty_string_keeps_sequence_counterexample:
  "timedLyrics (parseLyricsEffect [] (Some (readyAudio (Num 10)))
      (initialState\<lparr>timedLyrics := exampleLines [0, 5, 8]\<rparr>)) = exampleLines [0, 5, 8]
   \<and> timedLyrics (parseLyricsEffect [] (Some (readyAudio (Num 10)))
      (initialState\<lparr>timedLyrics := exampleLines [0, 5, 8]\<rparr>)) \<noteq> []"
  by (simp add: parseLyricsEffect_def Let_def initialState_def exampleLines_def)

subsection \<open>C9: plain lines in a timestamped input\<close>

text \<open>
  Claim C9. If at least one line has a timestamp, the stored sequence is the one obtained
  from the timestamped lines alone: a non-empty line without a timestamp contributes no
  entry, every entry comes from a line with a timestamp, the number of entries is the number
  of timestamp matches, and no listener is left that would give the plain lines a timing
  later.
\<close>

theorem plain_lines_dropped_in_timestamped_input:
  fixes lyrics :: jsstring and audio :: Audio and st :: KaraokeState
  defines "lines \<equiv> nonEmptyLines lyrics"
    and "P \<equiv> parseLyricsEffect lyrics (Some audio) st"
  assumes "\<exists>line \<in> set lines. matchAll line \<noteq> []"
  shows "timedLyrics P
           = sort_key startTime (parsedLrcLines (filter (\<lambda>line. matchAll line \<noteq> []) lines))
       \<and> (\<forall>line \<in> set lines. matchAll line = [] \<longrightarrow> lineEntries line = [])
       \<and> length (timedLyrics P) = sum_list (map (\<lambda>line. length (matchAll line)) lines)
       \<and> (\<forall>e \<in> set (timedLyrics P).
             \<exists>line \<in> set lines. matchAll line \<noteq> [] \<and> e \<in> set (lineEntries line))
       \<and> metadataListener P = None"
proof -
  have lrc: "isLrc (nonEmptyLines lyrics)"
    using assms(3) by (simp add: isLrc_iff lines_def)
  have P: "P = st\<lparr>metadataListener := None,
        timedLyrics := sort_key startTime (parsedLrcLines lines)\<rparr>"
    unfolding P_def lines_def by (rule parse_timestamped [OF lrc])
  have 1: "timedLyrics P
           = sort_key startTime (parsedLrcLines (filter (\<lambda>line. matchAll line \<noteq> []) lines))"
    by (simp add: P parsedLrcLines_filter)
  have 2: "\<forall>line \<in> set lines. matchAll line = [] \<longrightarrow> lineEntries line = []"
    by (simp add: lineEntries_def)
  have 3: "length (timedLyrics P) = sum_list (map (\<lambda>line. length (matchAll line)) lines)"
    by (simp add: P length_parsedLrcLines)
  have 4: "\<forall>e \<in> set (timedLyrics P).
             \<exists>line \<in> set lines. matchAll line \<noteq> [] \<and> e \<in> set (lineEntries line)"
  proof
    fix e
    assume "e \<in> set (timedLyrics P)"
    then obtain line where line: "line \<in> set lines" "e \<in> set (lineEntries line)"
      by (auto simp: P parsedLrcLines_def)
    from line(2) have "matchAll line \<noteq> []"
      by (auto simp: lineEntries_def)
    with line show "\<exists>line \<in> set lines. matchAll line \<noteq> [] \<and> e \<in> set (lineEntries line)"
      by blast
  qed
  have 5: "metadataListener P = None"
    by (simp add: P)
  show ?thesis
    by (intro conjI 1 2 3 4 5)
qed

text \<open>A timestamped line followed by a plain one: only the first is stored.\<close>

theorem plain_lines_dropped_in_timestamped_input_witness:
  "(\<exists>line \<in> set (nonEmptyLines exampleMixed). matchAll line \<noteq> [])
   \<and> js ''plain words'' \<in> set (nonEmptyLines exampleMixed)
   \<and> timedLyrics (parseLyricsEffect exampleMixed (Some (readyAudio (Num 10))) initialState)
       = [\<lparr>lineText = js ''A'', startTime = 15.32\<rparr>]"
proof -
  have ex: "\<exists>line \<in> set (nonEmptyLines exampleMixed). matchAll line \<noteq> []"
    by (simp add: exampleMixed_lines)
  have "timedLyrics (parseLyricsEffect exampleMixed (Some (readyAudio (Num 10))) initialState)
        = sort_key startTime (parsedLrcLines
            (filter (\<lambda>line. matchAll line \<noteq> []) (nonEmptyLines exampleMixed)))"
    using plain_lines_dropped_in_timestamped_input [OF ex] by blast
  also have "\<dots> = [\<lparr>lineText = js ''A'', startTime = 15.32\<rparr>]"
    by (simp add: exampleMixed_lines parsedLrcLines_def exampleLrc_entries)
  finally show ?thesis
    using ex by (simp add: exampleMixed_lines)
qed

subsection \<open>C10: the playback rate\<close>

text \<open>
  Claim C10. Two runs of the resolver that agree on the sequence, the offset and the clock
  position compute the same index, whatever else differs, the playback rate setting
  included; the effect that applies the rate to the audio element changes neither its clock
  position nor its duration.
\<close>

theorem active_index_ignores_playback_rate:
  "(timedLyrics st1 = timedLyrics st2 \<and> timingOffset st1 = timingOffset st2
      \<and> currentTime audio1 = currentTime audio2
     \<longrightarrow> currentLineIndex (animate audio1 st1) = currentLineIndex (animate audio2 st2))
   \<and> currentLineIndex (animate (playbackRateEffect (st\<lparr>playbackRate := r1\<rparr>) audio)
        (st\<lparr>playbackRate := r1\<rparr>))
      = currentLineIndex (animate (playbackRateEffect (st\<lparr>playbackRate := r2\<rparr>) audio)
        (st\<lparr>playbackRate := r2\<rparr>))
   \<and> currentTime (playbackRateEffect st audio) = currentTime audio
   \<and> duration (playbackRateEffect st audio) = duration audio"
  by (simp add: animate_def newIndex_def playbackRateEffect_def)

text \<open>The same sequence and clock position at rates 2 and 1.\<close>

theorem active_index_ignores_playback_rate_witness:
  "playbackRate (initialState\<lparr>timedLyrics := exampleLines [0, 5, 10], playbackRate := 2\<rparr>)
     \<noteq> playbackRate (initialState\<lparr>timedLyrics := exampleLines [0, 5, 10]\<rparr>)
   \<and> currentLineIndex (animate (readyAudio (Num 12)\<lparr>currentTime := 5, audioPlaybackRate := 2\<rparr>)
        (initialState\<lparr>timedLyrics := exampleLines [0, 5, 10], playbackRate := 2\<rparr>))
      = currentLineIndex (animate (readyAudio (Num 12)\<lparr>currentTime := 5\<rparr>)
          (initialState\<lparr>timedLyrics := exampleLines [0, 5, 10]\<rparr>))"
  using active_index_ignores_playback_rate
    [of "initialState\<lparr>timedLyrics := exampleLines [0, 5, 10], playbackRate := 2\<rparr>"
        "initialState\<lparr>timedLyrics := exampleLines [0, 5, 10]\<rparr>"
        "readyAudio (Num 12)\<lparr>currentTime := 5, audioPlaybackRate := 2\<rparr>"
        "readyAudio (Num 12)\<lparr>currentTime := 5\<rparr>"]
  by (simp add: initialState_def)

end
